theory Spec2Isabelle
  imports Complex_Main
begin

section \<open>The detection hook of \<open>src/hooks/useObjectDetection.ts\<close>\<close>

text \<open>
  The hook keeps two pieces of React state (\<open>detections\<close>, \<open>isProcessing\<close>) and three refs
  (\<open>workerRef\<close>, \<open>streamRef\<close>, \<open>intervalRef\<close>). Its handlers are closures: \<open>processFrame\<close> is
  rebuilt when \<open>mode\<close> or \<open>isProcessing\<close> change and reads the values of the render that built
  it; \<open>startDetection\<close> is rebuilt with \<open>processFrame\<close> and hands the \<open>processFrame\<close> of its own
  render to \<open>setInterval\<close>. Refs are read when the code runs.

  The embedding is a record of the hook's state and refs together with the part of the
  browser the handlers act on (interval timers, starts suspended at their \<open>await\<close>, messages
  posted to the worker, requests sent to the server, canvases created, console lines), and
  one function per handler. Every handler runs to its next \<open>await\<close>; React commits the state
  updates it queued, and runs the effects whose dependencies changed, before the next
  handler runs. A consumer calls the \<open>startDetection\<close> and \<open>stopDetection\<close> of the latest render.

  The hook is followed from its mount on, with the \<open>mode\<close> it was mounted with; a change
  of \<open>mode\<close> and the unmount (the cleanup of lines 25-30) are not followed. In the server
  branch the \<open>await\<close>s of \<open>toBlob\<close>, \<open>fetch\<close> and \<open>json\<close> are one step: the request is
  outstanding from the timer's call until it settles.

  JavaScript numbers are modelled as \<open>real\<close> (scores, coordinates) and \<open>int\<close> (millisecond
  time stamps). \<open>Date.now()\<close> is a function from the index of the reading inside one handler
  to the value read; \<open>Math.random()\<close> likewise.
\<close>

subsection \<open>Data\<close>

text \<open>\<open>DetectionMode\<close> is declared in \<open>@/types/detection\<close>; the hook compares it with
  \<open>'wasm'\<close> and \<open>'server'\<close> only, so any other value is \<open>other_mode\<close>.\<close>

datatype DetectionMode = wasm | server | other_mode

record Detection =
  label :: string
  score :: real
  xmin :: real
  ymin :: real
  xmax :: real
  ymax :: real
  frame_id :: int
  capture_ts :: int
  recv_ts :: int
  inference_ts :: int

type_synonym MediaStream = nat
type_synonym bytes = "nat list"
type_synonym clock = "nat \<Rightarrow> int"
type_synonym random = "nat \<Rightarrow> real"

text \<open>The object handed to \<open>workerRef.current.postMessage\<close> (lines 50-56).\<close>

record frame_message =
  imageData :: bytes
  width :: nat
  height :: nat
  timestamp :: int
  frameId :: int

text \<open>\<open>event.data\<close> of the worker's message (line 19); its field \<open>detections\<close> is
  \<open>data_detections\<close> here, the name \<open>detections\<close> being the hook's state.\<close>

record worker_data =
  data_detections :: "Detection list"
  processingTime :: real

text \<open>The blob of \<open>canvas.toBlob(_, 'image/jpeg', 0.8)\<close>: the canvas it encodes.\<close>

record blob =
  blob_width :: nat
  blob_height :: nat
  blob_pixels :: bytes

text \<open>The form posted to \<open>/api/detect\<close> (lines 64-66).\<close>

record form_data =
  image :: blob
  timestamp_field :: int

text \<open>The body of a successful response (lines 74-76); \<open>result.detections\<close> may be absent.\<close>

record server_result =
  result_detections :: "Detection list option"
  result_recv_ts :: int
  result_inference_ts :: int

text \<open>How the \<open>try\<close> block of lines 59-79 ends: a response with \<open>response.ok\<close>, a response
  without it (its status), or an exception (rejected \<open>fetch\<close>, unreadable body).\<close>

datatype fetch_outcome = Response_ok server_result | Response_status nat | Threw

datatype log_entry =
    Log_wasm_completed real
  | Log_server_completed int
  | Log_server_status nat
  | Log_server_failed
  | Log_started DetectionMode
  | Log_stopped
  | Log_test_boxes "Detection list"

text \<open>What a \<open>processFrame\<close> closure captured from its render.\<close>

record closure =
  c_mode :: DetectionMode
  c_isProcessing :: bool

text \<open>A running \<open>setInterval\<close> timer: its handle, the video element its callback holds
  (identified by the stream it plays) and the \<open>processFrame\<close> it calls.\<close>

record interval =
  handle :: nat
  video :: MediaStream
  env :: closure

datatype worker = YoloWorker

record hook =
  mode :: DetectionMode
  detections :: "Detection list"
  isProcessing :: bool
  workerRef :: "worker option"
  streamRef :: "MediaStream option"
  intervalRef :: "nat option"
  timers :: "interval list"
  nextHandle :: nat
  awaiting :: "(MediaStream \<times> closure) list"
  inbox :: "frame_message list"
  fetches :: "form_data list"
  canvases :: nat
  console :: "log_entry list"

text \<open>The spec's name for the failure of \<open>start\<close>. The source declares no error type and has
  no \<open>throw\<close>; the constructor exists so that the outcome of \<open>startDetection\<close> can be compared
  with it.\<close>

datatype error = InvalidStreamError

subsection \<open>Literals of the source\<close>

text \<open>Lines 143-180. The twelve \<open>Date.now()\<close> readings are numbered in evaluation order.\<close>

definition testDetections :: "clock \<Rightarrow> Detection list" where
  "testDetections clk =
    [\<lparr>label = ''person'', score = 0.93, xmin = 0.1, ymin = 0.1, xmax = 0.4, ymax = 0.7,
      frame_id = clk 0, capture_ts = clk 1, recv_ts = clk 2 + 10, inference_ts = clk 3 + 25\<rparr>,
     \<lparr>label = ''phone'', score = 0.87, xmin = 0.5, ymin = 0.2, xmax = 0.7, ymax = 0.5,
      frame_id = clk 4 + 1, capture_ts = clk 5, recv_ts = clk 6 + 8, inference_ts = clk 7 + 20\<rparr>,
     \<lparr>label = ''bottle'', score = 0.76, xmin = 0.75, ymin = 0.3, xmax = 0.9, ymax = 0.8,
      frame_id = clk 8 + 2, capture_ts = clk 9, recv_ts = clk 10 + 12, inference_ts = clk 11 + 30\<rparr>]"

text \<open>Lines 83-96. Five \<open>Math.random()\<close> readings, then four of \<open>Date.now()\<close>.\<close>

definition mockDetections :: "clock \<Rightarrow> random \<Rightarrow> Detection list" where
  "mockDetections clk rnd =
    [\<lparr>label = ''person'', score = 0.80 + rnd 0 * 0.15,
      xmin = 0.15 + rnd 1 * 0.1, ymin = 0.1 + rnd 2 * 0.1,
      xmax = 0.4 + rnd 3 * 0.1, ymax = 0.8 + rnd 4 * 0.1,
      frame_id = clk 0, capture_ts = clk 1, recv_ts = clk 2 + 5, inference_ts = clk 3 + 35\<rparr>]"

subsection \<open>Mounting and the effects\<close>

text \<open>First render: the \<open>useState\<close> and \<open>useRef\<close> initial values, then the effect of lines
  12-31, which creates the worker in \<open>wasm\<close> mode. The effect of lines 140-187 sets the empty
  list again. Timer handles are positive, hence truthy at line 131.\<close>

definition mount :: "DetectionMode \<Rightarrow> hook" where
  "mount m =
    \<lparr>mode = m, detections = [], isProcessing = False,
     workerRef = (if m = wasm then Some YoloWorker else None),
     streamRef = None, intervalRef = None,
     timers = [], nextHandle = 1, awaiting = [], inbox = [], fetches = [],
     canvases = 0, console = []\<rparr>"

text \<open>Lines 140-187, run after a render in which \<open>isProcessing\<close> changed.\<close>

definition processing_effect :: "clock \<Rightarrow> hook \<Rightarrow> hook" where
  "processing_effect clk s =
    (if isProcessing s
     then s\<lparr>detections := testDetections clk,
            console := console s @ [Log_test_boxes (testDetections clk)]\<rparr>
     else s\<lparr>detections := []\<rparr>)"

text \<open>\<open>setIsProcessing(v)\<close> and the render it causes: React skips the render, and the
  effect, when the value is the one it has.\<close>

definition setIsProcessing :: "clock \<Rightarrow> bool \<Rightarrow> hook \<Rightarrow> hook" where
  "setIsProcessing clk v s =
    (if isProcessing s = v then s else processing_effect clk (s\<lparr>isProcessing := v\<rparr>))"

subsection \<open>\<open>processFrame\<close> (lines 33-100)\<close>

text \<open>The call made by a timer, up to the point where the frame has been handed over: the
  message posted to the worker, or the request on its way to the server. \<open>ctx\<close> says whether
  \<open>canvas.getContext('2d')\<close> gave a context, \<open>img\<close> is the data \<open>getImageData\<close> returns.\<close>

definition processFrame ::
  "closure \<Rightarrow> clock \<Rightarrow> MediaStream option \<Rightarrow> bool \<Rightarrow> bytes \<Rightarrow> hook \<Rightarrow> hook" where
  "processFrame c clk videoElement ctx img s =
    (if videoElement = None \<or> \<not> c_isProcessing c then s
     else
       let s1 = s\<lparr>canvases := Suc (canvases s)\<rparr>
       in if \<not> ctx then s1
          else if c_mode c = wasm \<and> workerRef s1 \<noteq> None then
            s1\<lparr>inbox := inbox s1 @
                 [\<lparr>imageData = img, width = 320, height = 240,
                   timestamp = clk 0, frameId = clk 1\<rparr>]\<rparr>
          else if c_mode c = server then
            s1\<lparr>fetches := fetches s1 @
                 [\<lparr>image = \<lparr>blob_width = 320, blob_height = 240, blob_pixels = img\<rparr>,
                   timestamp_field = clk 0\<rparr>]\<rparr>
          else s1)"

text \<open>The rest of the server branch (lines 73-98), run when the request has settled.\<close>

definition fetch_settled :: "clock \<Rightarrow> random \<Rightarrow> fetch_outcome \<Rightarrow> hook \<Rightarrow> hook" where
  "fetch_settled clk rnd out s =
    (case out of
       Response_ok result \<Rightarrow>
         s\<lparr>detections := (case result_detections result of None \<Rightarrow> [] | Some ds \<Rightarrow> ds),
           console := console s @
             [Log_server_completed (result_inference_ts result - result_recv_ts result)]\<rparr>
     | Response_status st \<Rightarrow> s\<lparr>console := console s @ [Log_server_status st]\<rparr>
     | Threw \<Rightarrow>
         s\<lparr>detections := mockDetections clk rnd,
           console := console s @ [Log_server_failed]\<rparr>)"

text \<open>\<open>workerRef.current.onmessage\<close> (lines 18-22).\<close>

definition worker_onmessage :: "worker_data \<Rightarrow> hook \<Rightarrow> hook" where
  "worker_onmessage d s =
    s\<lparr>detections := data_detections d,
      console := console s @ [Log_wasm_completed (processingTime d)]\<rparr>"

subsection \<open>\<open>startDetection\<close> (lines 102-124) and \<open>stopDetection\<close> (lines 126-137)\<close>

text \<open>Up to the \<open>await\<close> of line 114. The call is suspended with the video element it
  created and the \<open>processFrame\<close> of its render, which saw the \<open>isProcessing\<close> of that
  render: the value before this call's \<open>setIsProcessing(true)\<close>.\<close>

definition startDetection :: "clock \<Rightarrow> MediaStream option \<Rightarrow> hook \<Rightarrow> error + hook" where
  "startDetection clk stream s =
    (case stream of
       None \<Rightarrow> Inr s
     | Some st \<Rightarrow>
         let c = \<lparr>c_mode = mode s, c_isProcessing = isProcessing s\<rparr>;
             s1 = setIsProcessing clk True (s\<lparr>streamRef := Some st\<rparr>)
         in Inr (s1\<lparr>awaiting := awaiting s1 @ [(st, c)]\<rparr>))"

text \<open>From line 119 on, when \<open>onloadedmetadata\<close> has fired for the \<open>i\<close>-th suspended call.\<close>

definition startDetection_resume :: "nat \<Rightarrow> hook \<Rightarrow> hook" where
  "startDetection_resume i s =
    (if i < length (awaiting s) then
       let st = fst (awaiting s ! i); c = snd (awaiting s ! i); h = nextHandle s
       in s\<lparr>awaiting := take i (awaiting s) @ drop (Suc i) (awaiting s),
            intervalRef := Some h,
            timers := timers s @ [\<lparr>handle = h, video = st, env = c\<rparr>],
            nextHandle := Suc h,
            console := console s @ [Log_started (c_mode c)]\<rparr>
     else s)"

definition stopDetection :: "clock \<Rightarrow> hook \<Rightarrow> hook" where
  "stopDetection clk s =
    (let s1 = s\<lparr>streamRef := None\<rparr>;
         s2 = (case intervalRef s1 of
                 None \<Rightarrow> s1
               | Some h \<Rightarrow> s1\<lparr>timers := filter (\<lambda>t. handle t \<noteq> h) (timers s1),
                              intervalRef := None\<rparr>);
         s3 = s2\<lparr>console := console s2 @ [Log_stopped]\<rparr>
     in setIsProcessing clk False (s3\<lparr>detections := []\<rparr>))"

subsection \<open>Runs\<close>

text \<open>What can happen to a mounted hook: the consumer calls \<open>start\<close> or \<open>stop\<close>, a video
  element loads its metadata, a timer fires, the worker sends a message, a request settles.
  A message of the worker answers the oldest frame it holds, if it holds one; \<open>onmessage\<close>
  publishes it either way.\<close>

datatype event =
    Start "MediaStream option"
  | MetadataLoaded nat
  | Stop
  | Tick nat bool bytes
  | WorkerMessage worker_data
  | FetchSettled nat fetch_outcome

fun step :: "clock \<Rightarrow> random \<Rightarrow> event \<Rightarrow> hook \<Rightarrow> hook" where
  "step clk rnd (Start stream) s =
     (case startDetection clk stream s of Inl e \<Rightarrow> s | Inr s' \<Rightarrow> s')"
| "step clk rnd (MetadataLoaded i) s = startDetection_resume i s"
| "step clk rnd Stop s = stopDetection clk s"
| "step clk rnd (Tick h ctx img) s =
     (case find (\<lambda>t. handle t = h) (timers s) of
        None \<Rightarrow> s
      | Some t \<Rightarrow> processFrame (env t) clk (Some (video t)) ctx img s)"
| "step clk rnd (WorkerMessage d) s =
     worker_onmessage d (case inbox s of [] \<Rightarrow> s | m # ms \<Rightarrow> s\<lparr>inbox := ms\<rparr>)"
| "step clk rnd (FetchSettled i out) s =
     (if i < length (fetches s)
      then fetch_settled clk rnd out
             (s\<lparr>fetches := take i (fetches s) @ drop (Suc i) (fetches s)\<rparr>)
      else s)"

fun run :: "clock \<Rightarrow> random \<Rightarrow> event list \<Rightarrow> hook \<Rightarrow> hook" where
  "run clk rnd [] s = s"
| "run clk rnd (e # es) s = run clk rnd es (step clk rnd e s)"

text \<open>\<open>run\<close> gives every handler the same readings; it serves for concrete runs, where the
  values read do not matter. In \<open>play\<close> every handler comes with the clock and the random
  source it reads.\<close>

fun play :: "(clock \<times> random \<times> event) list \<Rightarrow> hook \<Rightarrow> hook" where
  "play [] s = s"
| "play ((clk, rnd, e) # tes) s = play tes (step clk rnd e s)"

text \<open>Clocks and a random source for concrete runs.\<close>

definition clock0 :: clock where
  "clock0 k = 1700000000000 + int k"

definition clock1 :: clock where
  "clock1 k = 1700000001000 + 2 * int k"

definition random0 :: random where
  "random0 k = 1 / 2"

definition random1 :: random where
  "random1 k = 1 / (2 + real k)"


subsection \<open>Notions used by the properties\<close>

text \<open>Submissions handed to a backend and not yet answered.\<close>

definition in_flight :: "hook \<Rightarrow> nat" where
  "in_flight s = length (inbox s) + length (fetches s)"

text \<open>The constraints of the data model on one \<open>Detection\<close>.\<close>

definition valid_detection :: "Detection \<Rightarrow> bool" where
  "valid_detection d =
    (0 \<le> score d \<and> score d \<le> 1 \<and> xmin d < xmax d \<and> ymin d < ymax d \<and>
     0 \<le> xmin d \<and> xmin d \<le> 1 \<and> 0 \<le> ymin d \<and> ymin d \<le> 1 \<and>
     0 \<le> xmax d \<and> xmax d \<le> 1 \<and> 0 \<le> ymax d \<and> ymax d \<le> 1 \<and>
     capture_ts d \<le> recv_ts d \<and> recv_ts d \<le> inference_ts d)"

definition idle_inv :: "hook \<Rightarrow> bool" where
  "idle_inv s = (\<not> isProcessing s \<longrightarrow> detections s = [])"

definition frame_320x240 :: "frame_message \<Rightarrow> bool" where
  "frame_320x240 m = (width m = 320 \<and> height m = 240)"

definition blob_320x240 :: "form_data \<Rightarrow> bool" where
  "blob_320x240 f = (blob_width (image f) = 320 \<and> blob_height (image f) = 240)"

text \<open>Every frame still with a backend has the target size.\<close>

definition sized :: "hook \<Rightarrow> bool" where
  "sized s = (list_all frame_320x240 (inbox s) \<and> list_all blob_320x240 (fetches s))"

text \<open>The events that deliver a backend's answer to the hook.\<close>

fun is_completion :: "event \<Rightarrow> bool" where
  "is_completion (WorkerMessage d) = True"
| "is_completion (FetchSettled i out) = True"
| "is_completion e = False"

text \<open>The detections an event brings in from outside the hook: those of a message of the
  worker and those of a successful response.\<close>

fun relayed :: "event \<Rightarrow> Detection list" where
  "relayed (WorkerMessage d) = data_detections d"
| "relayed (FetchSettled i (Response_ok r)) =
     (case result_detections r of None \<Rightarrow> [] | Some ds \<Rightarrow> ds)"
| "relayed e = []"

text \<open>What a handler may rely on: successive \<open>Date.now()\<close> readings do not decrease,
  \<open>Math.random()\<close> lies in \<open>[0, 1)\<close>, and the detections a backend sends are well formed.\<close>

definition well_behaved :: "clock \<times> random \<times> event \<Rightarrow> bool" where
  "well_behaved te =
    (case te of (clk, rnd, e) \<Rightarrow>
       mono clk \<and> (\<forall>k. 0 \<le> rnd k \<and> rnd k < 1) \<and> list_all valid_detection (relayed e))"

text \<open>
  A hook started twice. The first \<open>startDetection\<close> belongs to the first render, whose
  \<open>processFrame\<close> saw \<open>isProcessing = false\<close>: its timer (handle 1) calls a \<open>processFrame\<close>
  that returns at line 34. The second call belongs to the render after
  \<open>setIsProcessing(true)\<close>: its timer (handle 2) calls a \<open>processFrame\<close> that goes on.
\<close>

definition restarted :: "DetectionMode \<Rightarrow> hook" where
  "restarted m =
    run clock0 random0
      [Start (Some 7), MetadataLoaded 0, Start (Some 7), MetadataLoaded 0] (mount m)"

definition sample_detection :: Detection where
  "sample_detection =
    \<lparr>label = ''person'', score = 0.9, xmin = 0.1, ymin = 0.1, xmax = 0.4, ymax = 0.7,
     frame_id = 1700000000100, capture_ts = 1700000000100, recv_ts = 1700000000105,
     inference_ts = 1700000000125\<rparr>"

section \<open>Auxiliary facts\<close>

lemmas handler_defs =
  mount_def startDetection_def startDetection_resume_def stopDetection_def
  setIsProcessing_def processing_effect_def processFrame_def fetch_settled_def
  worker_onmessage_def Let_def

lemma mono_clock0: "mono clock0"
  by (simp add: mono_def clock0_def)

lemma random0_unit: "\<forall>k. 0 \<le> random0 k \<and> random0 k < 1"
  by (simp add: random0_def)

lemma testDetections_valid:
  assumes "mono clk"
  shows "list_all valid_detection (testDetections clk)"
proof -
  have "clk 1 \<le> clk 2" "clk 2 \<le> clk 3" "clk 5 \<le> clk 6" "clk 6 \<le> clk 7"
    "clk 9 \<le> clk 10" "clk 10 \<le> clk 11"
    using assms by (simp_all add: mono_def)
  then show ?thesis
    by (simp add: testDetections_def valid_detection_def)
qed

lemma mockDetections_valid:
  assumes "mono clk" and "\<forall>k. 0 \<le> rnd k \<and> rnd k < 1"
  shows "list_all valid_detection (mockDetections clk rnd)"
proof -
  have t: "clk 1 \<le> clk 2" "clk 2 \<le> clk 3"
    using assms(1) by (simp_all add: mono_def)
  have r: "0 \<le> rnd 0" "rnd 0 < 1" "0 \<le> rnd 1" "rnd 1 < 1" "0 \<le> rnd 2" "rnd 2 < 1"
    "0 \<le> rnd 3" "rnd 3 < 1" "0 \<le> rnd 4" "rnd 4 < 1"
    using assms(2) by simp_all
  show ?thesis
    using t r by (simp add: mockDetections_def valid_detection_def)
qed

lemma processFrame_published:
  "detections (processFrame c clk v ctx img s) = detections s"
  "isProcessing (processFrame c clk v ctx img s) = isProcessing s"
  by (simp_all add: processFrame_def Let_def)

lemma resume_published:
  "detections (startDetection_resume i s) = detections s"
  "isProcessing (startDetection_resume i s) = isProcessing s"
  by (simp_all add: startDetection_resume_def Let_def)

lemma stopDetection_published:
  "detections (stopDetection clk s) = []"
  "isProcessing (stopDetection clk s) = False"
  by (simp_all add: stopDetection_def setIsProcessing_def processing_effect_def Let_def
      split: option.splits)

lemma stopDetection_queues:
  "inbox (stopDetection clk s) = inbox s"
  "fetches (stopDetection clk s) = fetches s"
  by (simp_all add: stopDetection_def setIsProcessing_def processing_effect_def Let_def
      split: option.splits)

lemma start_published:
  "startDetection clk (Some st) s = Inr s' \<Longrightarrow>
     isProcessing s' \<and> (detections s' = detections s \<or> detections s' = testDetections clk)"
  by (auto simp: startDetection_def setIsProcessing_def processing_effect_def Let_def)

lemma step_valid:
  assumes "mono clk" and "\<forall>k. 0 \<le> rnd k \<and> rnd k < 1"
    and "list_all valid_detection (relayed e)"
    and "list_all valid_detection (detections s)"
  shows "list_all valid_detection (detections (step clk rnd e s))"
proof (cases e)
  case (Start stream)
  show ?thesis
  proof (cases stream)
    case None
    with Start assms(4) show ?thesis by (simp add: startDetection_def)
  next
    case (Some st)
    obtain s' where s': "startDetection clk (Some st) s = Inr s'"
      by (simp add: startDetection_def Let_def)
    from start_published [OF s'] assms(4) testDetections_valid [OF assms(1)]
    have "list_all valid_detection (detections s')" by auto
    with Start Some s' show ?thesis by simp
  qed
next
  case (MetadataLoaded i)
  with assms(4) show ?thesis by (simp add: resume_published)
next
  case Stop
  then show ?thesis by (simp add: stopDetection_published)
next
  case (Tick h ctx img)
  with assms(4) show ?thesis by (simp add: processFrame_published split: option.splits)
next
  case (WorkerMessage d)
  with assms(3) show ?thesis by (simp add: worker_onmessage_def)
next
  case (FetchSettled i out)
  show ?thesis
  proof (cases out)
    case (Response_ok r)
    with FetchSettled assms(3,4) show ?thesis
      by (simp add: fetch_settled_def)
  next
    case (Response_status st)
    with FetchSettled assms(4) show ?thesis
      by (simp add: fetch_settled_def)
  next
    case Threw
    with FetchSettled assms(4) mockDetections_valid [OF assms(1,2)] show ?thesis
      by (simp add: fetch_settled_def)
  qed
qed

lemma play_valid:
  "list_all well_behaved tes \<Longrightarrow> list_all valid_detection (detections s) \<Longrightarrow>
    list_all valid_detection (detections (play tes s))"
proof (induction tes arbitrary: s)
  case Nil
  then show ?case by simp
next
  case (Cons te tes)
  obtain clk rnd e where te: "te = (clk, rnd, e)"
    by (cases te) auto
  from Cons.prems te have "list_all valid_detection (detections (step clk rnd e s))"
    by (simp add: well_behaved_def step_valid)
  with Cons te show ?case by simp
qed

lemma run_play: "run clk rnd es s = play (map (\<lambda>e. (clk, rnd, e)) es) s"
  by (induction es arbitrary: s) simp_all

lemma mono_clock1: "mono clock1"
  by (simp add: mono_def clock1_def)

lemma random1_unit: "\<forall>k. 0 \<le> random1 k \<and> random1 k < 1"
  by (simp add: random1_def)

lemma sample_detection_valid: "valid_detection sample_detection"
  by (simp add: valid_detection_def sample_detection_def)

lemma processFrame_sized: "sized s \<Longrightarrow> sized (processFrame c clk v ctx img s)"
  by (simp add: sized_def processFrame_def Let_def frame_320x240_def blob_320x240_def)

lemma step_sized: "sized s \<Longrightarrow> sized (step clk rnd e s)"
proof (cases e)
  case (Start stream)
  assume "sized s"
  with Start show ?thesis
    by (cases stream)
      (simp_all add: sized_def startDetection_def setIsProcessing_def processing_effect_def Let_def)
next
  case (MetadataLoaded i)
  assume "sized s"
  with MetadataLoaded show ?thesis by (simp add: sized_def startDetection_resume_def Let_def)
next
  case Stop
  assume "sized s"
  with Stop show ?thesis by (simp add: sized_def stopDetection_queues)
next
  case (Tick h ctx img)
  assume "sized s"
  with Tick show ?thesis by (simp add: processFrame_sized split: option.splits)
next
  case (WorkerMessage d)
  assume "sized s"
  with WorkerMessage show ?thesis
    by (cases "inbox s") (simp_all add: sized_def worker_onmessage_def)
next
  case (FetchSettled i out)
  assume "sized s"
  with FetchSettled show ?thesis
    by (cases out)
      (auto simp: sized_def fetch_settled_def list_all_iff dest: in_set_takeD in_set_dropD)
qed

lemma run_sized: "sized s \<Longrightarrow> sized (run clk rnd es s)"
  by (induction es arbitrary: s) (simp_all add: step_sized)

lemma mount_sized: "sized (mount m)"
  by (simp add: sized_def mount_def)

section \<open>Starting without a stream\<close>

text \<open>
  C1, as the code has it. \<open>startDetection\<close> called without a stream returns normally: it
  reports no error, and the hook is left exactly as it was, so no state field or ref is
  written and no timer is created.
\<close>

theorem startDetection_no_stream: "startDetection clk None s = Inr s"
  by (simp add: startDetection_def)

text \<open>C1 as stated fails: on the freshly mounted hook the call without a stream does not
  end in \<open>InvalidStreamError\<close>.\<close>

theorem startDetection_no_stream_not_error:
  "startDetection clock0 None (mount wasm) \<noteq> Inl InvalidStreamError"
  by (simp add: startDetection_def)

section \<open>Starting twice\<close>

text \<open>
  C2 says that a second start stops the timer of the first, so that one timer runs, as
  after stop and start. The code at this input: after two starts the timers with handles
  1 and 2 both run; after start, stop, start only timer 2 runs; and a stop after the two
  starts clears timer 2, the one \<open>intervalRef\<close> holds, and leaves timer 1 running.
\<close>

theorem restart_leaves_first_timer_running:
  "map handle (timers (run clock0 random0
      [Start (Some 7), MetadataLoaded 0, Start (Some 7), MetadataLoaded 0] (mount wasm))) = [1, 2]
   \<and> map handle (timers (run clock0 random0
      [Start (Some 7), MetadataLoaded 0, Stop, Start (Some 7), MetadataLoaded 0] (mount wasm))) = [2]
   \<and> map handle (timers (run clock0 random0
      [Start (Some 7), MetadataLoaded 0, Start (Some 7), MetadataLoaded 0, Stop] (mount wasm))) = [1]"
  by (simp add: handler_defs)

section \<open>Submissions in flight\<close>

text \<open>
  C3, as the code has it. The hook keeps no busy flag. A call of \<open>processFrame\<close> whose
  closure saw \<open>isProcessing = true\<close>, with a video element and a 2D context, in \<open>wasm\<close>
  mode with the worker present or in \<open>server\<close> mode, hands its frame over whatever is
  still outstanding: the number of submissions in flight grows by one.
\<close>

theorem processFrame_submits_when_busy:
  assumes "c_isProcessing c"
    and "c_mode c = wasm \<and> workerRef s \<noteq> None \<or> c_mode c = server"
  shows "in_flight (processFrame c clk (Some v) True img s) = Suc (in_flight s)"
  using assms by (auto simp: processFrame_def in_flight_def Let_def)

text \<open>At a hook with one message already with the worker, the next frame makes two.\<close>

theorem processFrame_submits_when_busy_witness:
  "c_isProcessing \<lparr>c_mode = wasm, c_isProcessing = True\<rparr>
   \<and> (c_mode \<lparr>c_mode = wasm, c_isProcessing = True\<rparr> = wasm
        \<and> workerRef (run clock0 random0 [Tick 2 True [1, 2, 3]] (restarted wasm)) \<noteq> None
      \<or> c_mode \<lparr>c_mode = wasm, c_isProcessing = True\<rparr> = server)
   \<and> in_flight (run clock0 random0 [Tick 2 True [1, 2, 3]] (restarted wasm)) = 1
   \<and> in_flight (processFrame \<lparr>c_mode = wasm, c_isProcessing = True\<rparr> clock0 (Some 7) True
        [4, 5, 6] (run clock0 random0 [Tick 2 True [1, 2, 3]] (restarted wasm))) = 2"
  using processFrame_submits_when_busy
    [of "\<lparr>c_mode = wasm, c_isProcessing = True\<rparr>"
        "run clock0 random0 [Tick 2 True [1, 2, 3]] (restarted wasm)" clock0 7 "[4, 5, 6]"]
  by (simp add: restarted_def handler_defs in_flight_def)

text \<open>C3 as stated fails: two ticks of the running timer before the worker has answered
  leave two submissions in flight; the second frame was queued, not dropped.\<close>

theorem second_tick_is_queued:
  "\<not> in_flight (run clock0 random0 [Tick 2 True [1, 2, 3], Tick 2 True [4, 5, 6]]
        (restarted wasm)) \<le> 1"
  by (simp add: restarted_def handler_defs in_flight_def)

section \<open>A failing server\<close>

text \<open>
  C4 says that a failed request, be it a non-success response or a transport error,
  yields a non-empty fallback batch. The code at this input: the server has answered one
  request with an empty list, so nothing is shown; the next request is answered with
  status 500 and the published list stays empty. Had the request thrown instead, the
  \<open>catch\<close> branch would have published the mock batch.
\<close>

theorem http_500_publishes_no_fallback:
  "detections (run clock0 random0
      [Tick 2 True [1, 2, 3], Tick 2 True [4, 5, 6],
       FetchSettled 0 (Response_ok
         \<lparr>result_detections = Some [], result_recv_ts = 1700000000105,
          result_inference_ts = 1700000000125\<rparr>),
       FetchSettled 0 (Response_status 500)] (restarted server)) = []
   \<and> detections (run clock0 random0
      [Tick 2 True [1, 2, 3], Tick 2 True [4, 5, 6],
       FetchSettled 0 (Response_ok
         \<lparr>result_detections = Some [], result_recv_ts = 1700000000105,
          result_inference_ts = 1700000000125\<rparr>),
       FetchSettled 0 Threw] (restarted server)) = mockDetections clock0 random0"
  by (simp add: restarted_def handler_defs)

section \<open>Well-formed detections\<close>

text \<open>
  C5. Every \<open>Detection\<close> the hook publishes is well formed: its score and its four
  coordinates lie in \<open>[0, 1]\<close>, \<open>xmin < xmax\<close>, \<open>ymin < ymax\<close>, and
  \<open>capture_ts \<le> recv_ts \<le> inference_ts\<close>. This holds for the test detections and the
  fallback batch the hook builds, and in every state a mounted hook reaches, whatever the
  events and whichever clock and random source each handler reads, as long as successive
  \<open>Date.now()\<close> readings do not decrease, \<open>Math.random()\<close> lies in \<open>[0, 1)\<close> and the
  detections the worker and the server send are well formed themselves.
\<close>

theorem published_detections_valid:
  assumes "list_all well_behaved tes"
    and "mono clk" and "\<forall>k. 0 \<le> rnd k \<and> rnd k < 1"
  shows "list_all valid_detection (detections (play tes (mount m)))
    \<and> list_all valid_detection (testDetections clk)
    \<and> list_all valid_detection (mockDetections clk rnd)"
proof -
  have "list_all valid_detection (detections (mount m))"
    by (simp add: mount_def)
  with play_valid [OF assms(1)] testDetections_valid [OF assms(2)]
    mockDetections_valid [OF assms(2,3)]
  show ?thesis by simp
qed

text \<open>A session in \<open>server\<close> mode whose first request is answered with a detection and whose
  second request throws: the fallback batch, built from the readings of the last handler,
  is what is published.\<close>

theorem published_detections_valid_witness:
  "list_all well_behaved
     [(clock0, random0, Start (Some 7)), (clock0, random0, MetadataLoaded 0),
      (clock1, random0, Start (Some 7)), (clock1, random0, MetadataLoaded 0),
      (clock0, random1, Tick 2 True [1, 2, 3]), (clock1, random1, Tick 2 True [4, 5, 6]),
      (clock0, random0, FetchSettled 0 (Response_ok
         \<lparr>result_detections = Some [sample_detection], result_recv_ts = 1700000000105,
          result_inference_ts = 1700000000125\<rparr>)),
      (clock1, random1, FetchSettled 0 Threw)]
   \<and> mono clock1 \<and> (\<forall>k. 0 \<le> random1 k \<and> random1 k < 1)
   \<and> detections (play
     [(clock0, random0, Start (Some 7)), (clock0, random0, MetadataLoaded 0),
      (clock1, random0, Start (Some 7)), (clock1, random0, MetadataLoaded 0),
      (clock0, random1, Tick 2 True [1, 2, 3]), (clock1, random1, Tick 2 True [4, 5, 6]),
      (clock0, random0, FetchSettled 0 (Response_ok
         \<lparr>result_detections = Some [sample_detection], result_recv_ts = 1700000000105,
          result_inference_ts = 1700000000125\<rparr>)),
      (clock1, random1, FetchSettled 0 Threw)] (mount server))
     = mockDetections clock1 random1
   \<and> list_all valid_detection (detections (play
     [(clock0, random0, Start (Some 7)), (clock0, random0, MetadataLoaded 0),
      (clock1, random0, Start (Some 7)), (clock1, random0, MetadataLoaded 0),
      (clock0, random1, Tick 2 True [1, 2, 3]), (clock1, random1, Tick 2 True [4, 5, 6]),
      (clock0, random0, FetchSettled 0 (Response_ok
         \<lparr>result_detections = Some [sample_detection], result_recv_ts = 1700000000105,
          result_inference_ts = 1700000000125\<rparr>)),
      (clock1, random1, FetchSettled 0 Threw)] (mount server)))
   \<and> list_all valid_detection (testDetections clock1)
   \<and> list_all valid_detection (mockDetections clock1 random1)"
proof -
  have wb: "list_all well_behaved
     [(clock0, random0, Start (Some 7)), (clock0, random0, MetadataLoaded 0),
      (clock1, random0, Start (Some 7)), (clock1, random0, MetadataLoaded 0),
      (clock0, random1, Tick 2 True [1, 2, 3]), (clock1, random1, Tick 2 True [4, 5, 6]),
      (clock0, random0, FetchSettled 0 (Response_ok
         \<lparr>result_detections = Some [sample_detection], result_recv_ts = 1700000000105,
          result_inference_ts = 1700000000125\<rparr>)),
      (clock1, random1, FetchSettled 0 Threw)]"
    using mono_clock0 mono_clock1 random0_unit random1_unit sample_detection_valid
    by (simp add: well_behaved_def)
  have ev: "detections (play
     [(clock0, random0, Start (Some 7)), (clock0, random0, MetadataLoaded 0),
      (clock1, random0, Start (Some 7)), (clock1, random0, MetadataLoaded 0),
      (clock0, random1, Tick 2 True [1, 2, 3]), (clock1, random1, Tick 2 True [4, 5, 6]),
      (clock0, random0, FetchSettled 0 (Response_ok
         \<lparr>result_detections = Some [sample_detection], result_recv_ts = 1700000000105,
          result_inference_ts = 1700000000125\<rparr>)),
      (clock1, random1, FetchSettled 0 Threw)] (mount server))
     = mockDetections clock1 random1"
    by (simp add: handler_defs)
  from published_detections_valid [OF wb mono_clock1 random1_unit, of server]
    wb mono_clock1 random1_unit ev
  show ?thesis by blast
qed

section \<open>Completions after stop\<close>

text \<open>
  C6, as the code has it. A completion that arrives after \<open>stopDetection\<close> is applied like
  any other: a successful response replaces the published detections by its own (the
  empty list when it has none), a thrown request publishes the fallback batch, and a
  message of the worker publishes the detections it carries; \<open>isProcessing\<close> stays false.
\<close>

theorem late_completion_is_published:
  "detections (fetch_settled clk rnd (Response_ok r) (stopDetection clk s))
     = (case result_detections r of None \<Rightarrow> [] | Some ds \<Rightarrow> ds)
   \<and> detections (fetch_settled clk rnd Threw (stopDetection clk s)) = mockDetections clk rnd
   \<and> detections (worker_onmessage d (stopDetection clk s)) = data_detections d
   \<and> \<not> isProcessing (fetch_settled clk rnd (Response_ok r) (stopDetection clk s))
   \<and> \<not> isProcessing (fetch_settled clk rnd Threw (stopDetection clk s))
   \<and> \<not> isProcessing (worker_onmessage d (stopDetection clk s))"
  by (simp add: fetch_settled_def worker_onmessage_def stopDetection_published)

text \<open>C6 as stated fails: a request is sent, the session is stopped, the response arrives;
  the published detections are no longer those the stop left.\<close>

theorem late_completion_mutates_state:
  "detections (run clock0 random0
      [Tick 2 True [1, 2, 3], Stop,
       FetchSettled 0 (Response_ok
         \<lparr>result_detections = Some [sample_detection],
          result_recv_ts = 1700000000105, result_inference_ts = 1700000000125\<rparr>)]
      (restarted server))
   \<noteq> detections (run clock0 random0 [Tick 2 True [1, 2, 3], Stop] (restarted server))"
  by (simp add: restarted_def handler_defs)

section \<open>Stopping\<close>

text \<open>
  C7 says that a stop, in whatever state it is called, leaves the session idle with the
  sampler timer stopped. The code at a session started three times and then stopped:
  \<open>isProcessing\<close> is false, the detections are empty and \<open>intervalRef\<close> is cleared, but
  only timer 3, the one \<open>intervalRef\<close> held, is gone; timers 1 and 2 still run, and timer
  2 calls a \<open>processFrame\<close> that saw \<open>isProcessing = true\<close>, so two ticks after the stop
  put two frames in flight. And a stop called while a start waits for its video: the
  session is idle, and the timer is created once the metadata has loaded. A stop after
  one completed start does leave no timer.
\<close>

theorem stop_leaves_sampler_running:
  "\<not> isProcessing (run clock0 random0
        [Start (Some 7), MetadataLoaded 0, Stop] (restarted wasm))
   \<and> detections (run clock0 random0
        [Start (Some 7), MetadataLoaded 0, Stop] (restarted wasm)) = []
   \<and> intervalRef (run clock0 random0
        [Start (Some 7), MetadataLoaded 0, Stop] (restarted wasm)) = None
   \<and> timers (run clock0 random0
        [Start (Some 7), MetadataLoaded 0, Stop] (restarted wasm))
      = [\<lparr>handle = 1, video = 7, env = \<lparr>c_mode = wasm, c_isProcessing = False\<rparr>\<rparr>,
         \<lparr>handle = 2, video = 7, env = \<lparr>c_mode = wasm, c_isProcessing = True\<rparr>\<rparr>]
   \<and> in_flight (run clock0 random0
        [Start (Some 7), MetadataLoaded 0, Stop] (restarted wasm)) = 0
   \<and> in_flight (run clock0 random0
        [Start (Some 7), MetadataLoaded 0, Stop,
         Tick 2 True [1, 2, 3], Tick 2 True [4, 5, 6]] (restarted wasm)) = 2
   \<and> \<not> isProcessing (run clock0 random0
        [Start (Some 7), Stop, MetadataLoaded 0] (mount wasm))
   \<and> map handle (timers (run clock0 random0
        [Start (Some 7), Stop, MetadataLoaded 0] (mount wasm))) = [1]
   \<and> intervalRef (run clock0 random0
        [Start (Some 7), Stop, MetadataLoaded 0] (mount wasm)) = Some 1
   \<and> timers (run clock0 random0
        [Start (Some 7), MetadataLoaded 0, Stop] (mount wasm)) = []"
  by (simp add: restarted_def handler_defs in_flight_def)

section \<open>Downsampling\<close>

text \<open>
  C8, as the code has it. In every state a mounted hook can reach, every frame with the
  worker or the server is 320 by 240; and every call of \<open>processFrame\<close> that passes the
  guard of line 34 creates a canvas of its own.
\<close>

theorem processFrame_320x240_fresh_canvas:
  "sized (run clk rnd es (mount m))
   \<and> (c_isProcessing c \<longrightarrow>
        canvases (processFrame c clk (Some v) ctx img s) = Suc (canvases s))"
  by (simp add: run_sized mount_sized processFrame_def Let_def)

text \<open>Two frames with the worker, both of the target size; the first call on a hook that
  has created no canvas creates one.\<close>

theorem processFrame_320x240_fresh_canvas_witness:
  "sized (run clock0 random0 [Tick 2 True [1, 2, 3], Tick 2 True [4, 5, 6]] (restarted wasm))
   \<and> length (inbox (run clock0 random0 [Tick 2 True [1, 2, 3], Tick 2 True [4, 5, 6]]
        (restarted wasm))) = 2
   \<and> c_isProcessing \<lparr>c_mode = wasm, c_isProcessing = True\<rparr>
   \<and> canvases (restarted wasm) = 0
   \<and> canvases (processFrame \<lparr>c_mode = wasm, c_isProcessing = True\<rparr> clock0 (Some 7) True
        [1, 2, 3] (restarted wasm)) = 1"
  using processFrame_320x240_fresh_canvas
    [of clock0 random0
      "[Start (Some 7), MetadataLoaded 0, Start (Some 7), MetadataLoaded 0,
        Tick 2 True [1, 2, 3], Tick 2 True [4, 5, 6]]" wasm
      "\<lparr>c_mode = wasm, c_isProcessing = True\<rparr>" 7 True "[1, 2, 3]" "restarted wasm"]
  by (simp add: restarted_def handler_defs)

text \<open>C8 as stated fails: after two frames two canvases have been created, not one.\<close>

theorem canvas_allocated_per_frame:
  "\<not> canvases (run clock0 random0 [Tick 2 True [1, 2, 3], Tick 2 True [4, 5, 6]]
        (restarted wasm)) \<le> 1"
  by (simp add: restarted_def handler_defs)

section \<open>Messages to and from the worker\<close>

text \<open>
  C9. In \<open>wasm\<close> mode with the worker present, a call of \<open>processFrame\<close> that passes its
  guards posts exactly one message, with the fields \<open>imageData\<close>, \<open>width\<close>, \<open>height\<close>,
  \<open>timestamp\<close> and \<open>frameId\<close>: the pixels read from the canvas, the canvas size 320 by 240,
  and two clock readings. The worker's message carries \<open>detections\<close> and \<open>processingTime\<close>,
  and its detections become the published ones.
\<close>

theorem worker_message_schema:
  assumes "c_isProcessing c" and "c_mode c = wasm" and "workerRef s = Some w"
  shows "inbox (processFrame c clk (Some v) True img s)
      = inbox s @ [\<lparr>imageData = img, width = 320, height = 240,
                    timestamp = clk 0, frameId = clk 1\<rparr>]
    \<and> detections (worker_onmessage \<lparr>data_detections = ds, processingTime = p\<rparr> s') = ds"
  using assms by (simp add: processFrame_def worker_onmessage_def Let_def)

theorem worker_message_schema_witness:
  "c_isProcessing \<lparr>c_mode = wasm, c_isProcessing = True\<rparr>
   \<and> c_mode \<lparr>c_mode = wasm, c_isProcessing = True\<rparr> = wasm
   \<and> workerRef (restarted wasm) = Some YoloWorker
   \<and> inbox (processFrame \<lparr>c_mode = wasm, c_isProcessing = True\<rparr> clock0 (Some 7) True
        [1, 2, 3] (restarted wasm))
      = [\<lparr>imageData = [1, 2, 3], width = 320, height = 240,
          timestamp = 1700000000000, frameId = 1700000000001\<rparr>]
   \<and> detections (worker_onmessage
        \<lparr>data_detections = [sample_detection], processingTime = 20\<rparr> (restarted wasm))
      = [sample_detection]"
  using worker_message_schema
    [of "\<lparr>c_mode = wasm, c_isProcessing = True\<rparr>" "restarted wasm" YoloWorker clock0 7
        "[1, 2, 3]" "[sample_detection]" 20 "restarted wasm"]
  by (simp add: restarted_def handler_defs clock0_def)

section \<open>Nothing published while idle\<close>

text \<open>
  C10, as the code has it. The invariant "when \<open>isProcessing\<close> is false the published
  detections are empty" is preserved by a start, by the resumption of a start when the
  video has loaded, by a stop and by every timer tick. The completions of the worker and
  of the server are left out: they publish without looking at \<open>isProcessing\<close>.
\<close>

theorem idle_inv_preserved:
  assumes "idle_inv s" and "\<not> is_completion e"
  shows "idle_inv (step clk rnd e s)"
proof (cases e)
  case (Start stream)
  show ?thesis
  proof (cases stream)
    case None
    with Start assms(1) show ?thesis by (simp add: startDetection_def)
  next
    case (Some st)
    obtain s' where s': "startDetection clk (Some st) s = Inr s'"
      by (simp add: startDetection_def Let_def)
    from start_published [OF s'] have "idle_inv s'" by (simp add: idle_inv_def)
    with Start Some s' show ?thesis by simp
  qed
next
  case (MetadataLoaded i)
  with assms(1) show ?thesis by (simp add: idle_inv_def resume_published)
next
  case Stop
  then show ?thesis by (simp add: idle_inv_def stopDetection_published)
next
  case (Tick h ctx img)
  with assms(1) show ?thesis
    by (simp add: idle_inv_def processFrame_published split: option.splits)
next
  case (WorkerMessage d)
  with assms(2) show ?thesis by simp
next
  case (FetchSettled i out)
  with assms(2) show ?thesis by simp
qed

text \<open>A stop of a running session that shows the test detections.\<close>

theorem idle_inv_preserved_witness:
  "idle_inv (restarted wasm) \<and> \<not> is_completion Stop
   \<and> isProcessing (restarted wasm) \<and> detections (restarted wasm) \<noteq> []
   \<and> \<not> isProcessing (step clock0 random0 Stop (restarted wasm))
   \<and> idle_inv (step clock0 random0 Stop (restarted wasm))"
proof -
  have a: "idle_inv (restarted wasm)"
    by (simp add: idle_inv_def restarted_def handler_defs)
  have b: "\<not> is_completion Stop" by simp
  have c: "isProcessing (restarted wasm) \<and> detections (restarted wasm) \<noteq> []
     \<and> \<not> isProcessing (step clock0 random0 Stop (restarted wasm))"
    by (simp add: restarted_def handler_defs testDetections_def)
  from idle_inv_preserved [OF a b, of clock0 random0] a b c show ?thesis by blast
qed

text \<open>C10 as stated fails: a frame is posted, the session is stopped, which leaves the
  invariant true, and the worker's answer then publishes a detection while \<open>isProcessing\<close>
  is false.\<close>

theorem late_worker_message_breaks_idle_inv:
  "idle_inv (run clock0 random0 [Tick 2 True [1, 2, 3], Stop] (restarted wasm))
   \<and> \<not> idle_inv (run clock0 random0
        [Tick 2 True [1, 2, 3], Stop,
         WorkerMessage \<lparr>data_detections = [sample_detection], processingTime = 20\<rparr>]
        (restarted wasm))"
  by (simp add: restarted_def handler_defs idle_inv_def)

end
